theory Spec2Isabelle
  imports Complex_Main
begin

section \<open>Canada home affordability calculator: the computational core\<close>

text \<open>
  The repository consists of two Streamlit scripts, \<^verbatim>\<open>app.py\<close> and \<^verbatim>\<open>app2.py\<close>. Their
  computational core is a mortgage calculator (\<^verbatim>\<open>calculate_max_affordable\<close>), a
  "cumulative" function of a log-normal income model (\<^verbatim>\<open>lognorm_cdf\<close>), a table of
  regions (\<^verbatim>\<open>REGIONS\<close>) and a loop that builds one comparison row per region.

  Numbers. Python's \<^verbatim>\<open>float\<close> (and numpy's \<^verbatim>\<open>float64\<close>) is idealised as \<^typ>\<open>real\<close>:
  rounding, overflow and the non-finite values \<^verbatim>\<open>inf\<close>/\<^verbatim>\<open>nan\<close> are not modelled.
  Python's \<^verbatim>\<open>int\<close> is \<^typ>\<open>int\<close>. What Python does raise on these operations, the
  \<^verbatim>\<open>ZeroDivisionError\<close> of \<^verbatim>\<open>/\<close> and of \<^verbatim>\<open>**\<close>, is a value of the model.
\<close>

subsection \<open>Python arithmetic that can raise\<close>

datatype error = ZeroDivisionError

text \<open>\<^verbatim>\<open>x / y\<close> on Python scalars raises \<^verbatim>\<open>ZeroDivisionError\<close> when \<^verbatim>\<open>y\<close> is zero
  (also for \<^verbatim>\<open>0.0 / 0.0\<close>).\<close>

definition py_truediv :: "real \<Rightarrow> real \<Rightarrow> error + real" where
  "py_truediv x y = (if y = 0 then Inl ZeroDivisionError else Inr (x / y))"

text \<open>\<^verbatim>\<open>b ** n\<close> for a float \<^verbatim>\<open>b\<close> and an int \<^verbatim>\<open>n\<close>: \<^verbatim>\<open>b ** 0\<close> is \<^verbatim>\<open>1.0\<close> for every
  \<^verbatim>\<open>b\<close>, a negative exponent is the reciprocal of the positive power, and
  \<^verbatim>\<open>0.0 ** n\<close> with \<^verbatim>\<open>n < 0\<close> raises \<^verbatim>\<open>ZeroDivisionError\<close>.\<close>

definition py_pow :: "real \<Rightarrow> int \<Rightarrow> error + real" where
  "py_pow b n =
     (if 0 \<le> n then Inr (b ^ nat n)
      else if b = 0 then Inl ZeroDivisionError
      else Inr (1 / b ^ nat (- n)))"

subsection \<open>The mortgage calculator\<close>

text \<open>
  \<^verbatim>\<open>app.py\<close>, lines 37-48:
  \<^verbatim>\<open>
  def calculate_max_affordable(price, down_payment_pct, mortgage_rate, amortization=25):
      down_payment = price * down_payment_pct
      loan = price - down_payment
      monthly_rate = mortgage_rate / 12
      n_payments = amortization * 12
      monthly_payment = loan * (monthly_rate * (1 + monthly_rate)**n_payments)
                        / ((1 + monthly_rate)**n_payments - 1)
      annual_income_needed = monthly_payment * 12 / 0.28
      return annual_income_needed
  \<close>
  The price comes from a number input (a Python number), the down-payment fraction and
  the rate are floats of the region table, and the amortization is an int (the default
  25 at every call site). The function has no check of its arguments and no branch: the
  only failures are the ones Python's arithmetic raises. The power in the numerator is
  evaluated first, then the one in the denominator (the same value), then the division.
\<close>

definition calculate_max_affordable :: "real \<Rightarrow> real \<Rightarrow> real \<Rightarrow> int \<Rightarrow> error + real" where
  "calculate_max_affordable price down_payment_pct mortgage_rate amortization =
     (let down_payment = price * down_payment_pct;
          loan = price - down_payment;
          monthly_rate = mortgage_rate / 12;
          n_payments = amortization * 12
      in case py_pow (1 + monthly_rate) n_payments of
           Inl e \<Rightarrow> Inl e
         | Inr pw \<Rightarrow>
             (case py_truediv (loan * (monthly_rate * pw)) (pw - 1) of
                Inl e \<Rightarrow> Inl e
              | Inr monthly_payment \<Rightarrow> Inr (monthly_payment * 12 / 0.28)))"

text \<open>
  \<^verbatim>\<open>app2.py\<close>, lines 40-48: the same body under a caching decorator (which returns the
  function's own result for equal arguments), returning a pair:
  \<^verbatim>\<open>
      return annual_income_needed, down_payment
  \<close>
\<close>

definition calculate_max_affordable_app2 ::
    "real \<Rightarrow> real \<Rightarrow> real \<Rightarrow> int \<Rightarrow> error + (real \<times> real)" where
  "calculate_max_affordable_app2 price down_payment_pct mortgage_rate amortization =
     (let down_payment = price * down_payment_pct;
          loan = price - down_payment;
          monthly_rate = mortgage_rate / 12;
          n_payments = amortization * 12
      in case py_pow (1 + monthly_rate) n_payments of
           Inl e \<Rightarrow> Inl e
         | Inr pw \<Rightarrow>
             (case py_truediv (loan * (monthly_rate * pw)) (pw - 1) of
                Inl e \<Rightarrow> Inl e
              | Inr monthly_payment \<Rightarrow> Inr (monthly_payment * 12 / 0.28, down_payment)))"

subsection \<open>The income distribution\<close>

text \<open>
  Both files, \<^verbatim>\<open>app.py\<close> lines 22-31 and \<^verbatim>\<open>app2.py\<close> lines 25-34:
  \<^verbatim>\<open>
  mu, sigma = 10.45, 0.95
  scale = np.exp(mu)

  def lognorm_cdf(x, s, scale):
      z = (np.log(x) - np.log(scale)) / s
      return 0.5 * (1 + np.tanh(np.sqrt(2) * z / 2) + np.sqrt(2/np.pi) * np.exp(-z**2/2))
  \<close>
  numpy raises nothing here: for \<^verbatim>\<open>x \<le> 0\<close> it yields \<^verbatim>\<open>-inf\<close> or \<^verbatim>\<open>nan\<close> with a warning.
  The model is meant for \<open>x > 0\<close>, \<open>scale > 0\<close> and \<open>s \<noteq> 0\<close>, and every theorem about it
  below is at such arguments.
\<close>

definition mu :: real where
  "mu = 10.45"

definition sigma :: real where
  "sigma = 0.95"

definition scale :: real where
  "scale = exp mu"

definition lognorm_cdf :: "real \<Rightarrow> real \<Rightarrow> real \<Rightarrow> real" where
  "lognorm_cdf x s scl =
     (let z = (ln x - ln scl) / s
      in 0.5 * (1 + tanh (sqrt 2 * z / 2) + sqrt (2 / pi) * exp (- (z ^ 2) / 2)))"

text \<open>
  The share of the population able to afford the home, \<^verbatim>\<open>app.py\<close> line 74 and
  \<^verbatim>\<open>app2.py\<close> line 65 (and, inside the comparison loops, \<^verbatim>\<open>prob\<close>):
  \<^verbatim>\<open>
  prob_affordable = 1 - lognorm_cdf(max_income_needed, sigma, scale)
  \<close>
\<close>

definition prob_affordable :: "real \<Rightarrow> real" where
  "prob_affordable max_income_needed = 1 - lognorm_cdf max_income_needed sigma scale"

subsection \<open>The region tables\<close>

text \<open>
  \<^verbatim>\<open>REGIONS\<close> is a dict literal whose values are dicts with the same five keys. A Python
  dict iterates in insertion order, so the table is an association list in the order of
  the literal; its keys are pairwise different in both files.
\<close>

record region_data =
  down_payment :: real
  rate :: real
  first_time :: real
  pop :: int
  incentive :: real

text \<open>\<^verbatim>\<open>app.py\<close>, lines 13-19.\<close>

definition REGIONS :: "(string \<times> region_data) list" where
  "REGIONS =
     [(''Ontario'',
         \<lparr>down_payment = 0.05, rate = 0.045, first_time = 0.05, pop = 15000000, incentive = 0.95\<rparr>),
      (''BC'',
         \<lparr>down_payment = 0.05, rate = 0.048, first_time = 0.05, pop = 5300000, incentive = 0.90\<rparr>),
      (''Alberta'',
         \<lparr>down_payment = 0.05, rate = 0.042, first_time = 0.05, pop = 4500000, incentive = 1.00\<rparr>),
      (''Quebec'',
         \<lparr>down_payment = 0.05, rate = 0.043, first_time = 0.03, pop = 9000000, incentive = 1.00\<rparr>),
      (''National'',
         \<lparr>down_payment = 0.05, rate = 0.045, first_time = 0.05, pop = 20000000, incentive = 0.95\<rparr>)]"

text \<open>
  \<^verbatim>\<open>app2.py\<close>, lines 15-22. Every key starts with a flag emoji, two regional indicator
  symbols, followed by a space. A \<^typ>\<open>string\<close> is a list of bytes, so a key is its UTF-8
  encoding: the regional indicator of the \<open>k\<close>-th letter is U+1F1E6 + \<open>k\<close>, in UTF-8 the
  bytes F0 9F 87 followed by A6 + \<open>k\<close>. The flags of the source are the letter pairs
  CA, ON, BC, AB, QC and MA.
\<close>

definition regional_indicator :: "char \<Rightarrow> string" where
  "regional_indicator b = [CHR 0xF0, CHR 0x9F, CHR 0x87, b]"

definition flag :: "char \<Rightarrow> char \<Rightarrow> string" where
  "flag a b = regional_indicator a @ regional_indicator b"

definition REGIONS_app2 :: "(string \<times> region_data) list" where
  "REGIONS_app2 =
     [(flag (CHR 0xA8) (CHR 0xA6) @ '' National'',
         \<lparr>down_payment = 0.05, rate = 0.045, first_time = 0.05, pop = 20000000, incentive = 0.95\<rparr>),
      (flag (CHR 0xB4) (CHR 0xB3) @ '' Ontario'',
         \<lparr>down_payment = 0.05, rate = 0.047, first_time = 0.05, pop = 15000000, incentive = 0.93\<rparr>),
      (flag (CHR 0xA7) (CHR 0xA8) @ '' BC'',
         \<lparr>down_payment = 0.05, rate = 0.049, first_time = 0.05, pop = 5300000, incentive = 0.90\<rparr>),
      (flag (CHR 0xA6) (CHR 0xA7) @ '' Alberta'',
         \<lparr>down_payment = 0.05, rate = 0.043, first_time = 0.05, pop = 4500000, incentive = 1.00\<rparr>),
      (flag (CHR 0xB6) (CHR 0xA8) @ '' Quebec'',
         \<lparr>down_payment = 0.05, rate = 0.044, first_time = 0.03, pop = 9000000, incentive = 1.00\<rparr>),
      (flag (CHR 0xB2) (CHR 0xA6) @ '' Manitoba'',
         \<lparr>down_payment = 0.05, rate = 0.042, first_time = 0.05, pop = 1400000, incentive = 1.00\<rparr>)]"

subsection \<open>The regional comparison\<close>

text \<open>
  \<^verbatim>\<open>app.py\<close>, lines 119-128 (run when the button is pressed):
  \<^verbatim>\<open>
  comparison_data = []
  for region, data in REGIONS.items():
      income_needed = calculate_max_affordable(home_price, data["first_time"], data["rate"])
      prob = 1 - lognorm_cdf(income_needed, sigma, scale)
      comparison_data.append({
          "Region": region,
          "Min Income Needed": f"${income_needed:,.0f}",
          "Can Afford": f"{prob*data['pop']:,.0f}",
          "% Population": f"{prob*100:.1f}%"
      })
  \<close>
  A row is modelled with its numbers before they are formatted for display. The loop
  has no \<^verbatim>\<open>try\<close>: an exception raised for one region ends the whole loop, and no list
  is produced. The amortization is the default 25 of the callee.
\<close>

record comparison_row =
  Region :: string
  Min_Income_Needed :: real
  Can_Afford :: real
  Pct_Population :: real

fun comparison_loop ::
    "real \<Rightarrow> (string \<times> region_data) list \<Rightarrow> comparison_row list \<Rightarrow> error + comparison_row list" where
  "comparison_loop home_price [] comparison_data = Inr comparison_data"
| "comparison_loop home_price ((region, data) # rest) comparison_data =
     (case calculate_max_affordable home_price (first_time data) (rate data) 25 of
        Inl e \<Rightarrow> Inl e
      | Inr income_needed \<Rightarrow>
          (let prob = 1 - lognorm_cdf income_needed sigma scale
           in comparison_loop home_price rest
                (comparison_data @
                   [\<lparr>Region = region,
                     Min_Income_Needed = income_needed,
                     Can_Afford = prob * real_of_int (pop data),
                     Pct_Population = prob * 100\<rparr>])))"

definition comparison_data :: "real \<Rightarrow> error + comparison_row list" where
  "comparison_data home_price = comparison_loop home_price REGIONS []"

text \<open>
  \<^verbatim>\<open>app2.py\<close>, lines 83-92: the same loop over its own table and calculator, keeping the
  first component of the calculator's pair (\<^verbatim>\<open>income_needed, _ = ...\<close>). Its column
  labels are "Region", "Min Income", "Can Afford" and "% of Pop"; the same row record
  is used for both.
\<close>

fun comparison_loop_app2 ::
    "real \<Rightarrow> (string \<times> region_data) list \<Rightarrow> comparison_row list \<Rightarrow> error + comparison_row list" where
  "comparison_loop_app2 home_price [] comparison = Inr comparison"
| "comparison_loop_app2 home_price ((region_name, data) # rest) comparison =
     (case calculate_max_affordable_app2 home_price (first_time data) (rate data) 25 of
        Inl e \<Rightarrow> Inl e
      | Inr (income_needed, _) \<Rightarrow>
          (let prob = 1 - lognorm_cdf income_needed sigma scale
           in comparison_loop_app2 home_price rest
                (comparison @
                   [\<lparr>Region = region_name,
                     Min_Income_Needed = income_needed,
                     Can_Afford = prob * real_of_int (pop data),
                     Pct_Population = prob * 100\<rparr>])))"

definition comparison :: "real \<Rightarrow> error + comparison_row list" where
  "comparison home_price = comparison_loop_app2 home_price REGIONS_app2 []"

section \<open>Facts about the mortgage calculator\<close>

subsection \<open>Where the calculator returns\<close>

lemma py_pow_pos_rate:
  assumes "0 < m" "0 < n"
  shows "py_pow (1 + m) n = Inr ((1 + m) ^ nat n)" and "1 < (1 + m) ^ nat n"
  using assms by (simp_all add: py_pow_def one_less_power)

lemma calc_pos_rate:
  assumes "0 < r" "0 < a"
  shows "calculate_max_affordable price d r a =
    Inr ((price - price * d) * (r / 12 * (1 + r / 12) ^ nat (a * 12))
           / ((1 + r / 12) ^ nat (a * 12) - 1) * 12 / 0.28)"
proof -
  have m: "0 < r / 12" and n: "0 < a * 12" using assms by simp_all
  have "(1 + r / 12) ^ nat (a * 12) - 1 \<noteq> 0"
    using py_pow_pos_rate(2) [OF m n] by simp
  then show ?thesis
    by (simp add: calculate_max_affordable_def Let_def py_pow_pos_rate(1) [OF m n] py_truediv_def)
qed

text \<open>For a positive rate and a positive amortization the result is the loan times a
  positive factor that depends on the rate and the amortization only.\<close>

lemma calc_linear:
  assumes "0 < r" "0 < a"
  obtains K where "0 < K"
    and "\<And>price d. calculate_max_affordable price d r a = Inr ((price - price * d) * K)"
proof -
  define P where "P = (1 + r / 12) ^ nat (a * 12)"
  define K where "K = r / 12 * P / (P - 1) * 12 / 0.28"
  have "1 < P" unfolding P_def
    using assms by (intro py_pow_pos_rate(2)) simp_all
  then have "0 < K" unfolding K_def using assms by simp
  moreover have "calculate_max_affordable price d r a = Inr ((price - price * d) * K)" for price d
    unfolding K_def P_def by (simp add: calc_pos_rate [OF assms])
  ultimately show thesis by (rule that)
qed

lemma calc_zero_rate: "calculate_max_affordable price d 0 a = Inl ZeroDivisionError"
  by (simp add: calculate_max_affordable_def Let_def py_pow_def py_truediv_def)

lemma calc_zero_amortization: "calculate_max_affordable price d r 0 = Inl ZeroDivisionError"
  by (simp add: calculate_max_affordable_def Let_def py_pow_def py_truediv_def)

lemma calc_neg_amortization:
  assumes "a < 0" "0 < r"
  shows "calculate_max_affordable price d r a =
    Inr ((price - price * d) * (r / 12 * (1 / (1 + r / 12) ^ nat (- (a * 12))))
           / (1 / (1 + r / 12) ^ nat (- (a * 12)) - 1) * 12 / 0.28)"
proof -
  have "0 < nat (- (a * 12))" using assms by simp
  then have "1 < (1 + r / 12) ^ nat (- (a * 12))"
    using assms by (intro one_less_power) simp_all
  then have "1 / (1 + r / 12) ^ nat (- (a * 12)) - 1 \<noteq> 0" by simp
  moreover have "\<not> 0 \<le> a * 12" "1 + r / 12 \<noteq> 0" using assms by simp_all
  ultimately show ?thesis
    by (simp add: calculate_max_affordable_def Let_def py_pow_def py_truediv_def)
qed

lemma calc_app2:
  "calculate_max_affordable_app2 p d r a =
     map_sum id (\<lambda>v. (v, p * d)) (calculate_max_affordable p d r a)"
  by (simp add: calculate_max_affordable_def calculate_max_affordable_app2_def Let_def
      split: sum.splits)

subsection \<open>The payment formula\<close>

text \<open>
  Claim C3. For every price > 0, down-payment fraction \<open>0 \<le> d < 1\<close>, annual rate
  \<open>r > 0\<close> and amortization of \<open>a > 0\<close> years, the calculator returns
  \<open>(loan * m * (1 + m)^n / ((1 + m)^n - 1)) * 12 / 0.28\<close> with \<open>loan = price * (1 - d)\<close>,
  \<open>m = r / 12\<close> and \<open>n = a * 12\<close>. (Over the reals: the rounding of the floats is not
  modelled.)
\<close>

theorem calculate_max_affordable_formula:
  assumes "0 < price" "0 \<le> d" "d < 1" "0 < r" "0 < a"
  shows "calculate_max_affordable price d r a =
    Inr ((price * (1 - d)) * (r / 12) * (1 + r / 12) ^ nat (a * 12)
           / ((1 + r / 12) ^ nat (a * 12) - 1) * 12 / 0.28)"
  using calc_pos_rate [OF assms(4,5), of price d] by (simp add: algebra_simps)

theorem calculate_max_affordable_formula_witness:
  "calculate_max_affordable 800000 (5 / 100) (45 / 1000) 25 =
    Inr ((800000 * (1 - 5 / 100)) * (45 / 1000 / 12) * (1 + 45 / 1000 / 12) ^ nat (25 * 12)
           / ((1 + 45 / 1000 / 12) ^ nat (25 * 12) - 1) * 12 / 0.28)"
  by (rule calculate_max_affordable_formula) simp_all

subsection \<open>A zero rate\<close>

theorem zero_rate_counterexample:
  "calculate_max_affordable 800000 (5 / 100) 0 25 = Inl ZeroDivisionError \<and>
   calculate_max_affordable 800000 (5 / 100) 0 25 \<noteq> Inr (800000 * (1 - 5 / 100) / 25 * 12 / 0.28)"
  by (simp add: calc_zero_rate)

text \<open>
  Claim C4, as the code has it. The calculator has no special case for a zero rate: with
  \<open>annualRate = 0\<close> the denominator \<open>(1 + 0)^n - 1\<close> is zero and the division raises
  \<^verbatim>\<open>ZeroDivisionError\<close>, for every price, down-payment fraction and amortization. No
  straight-line amortization is computed.
\<close>

theorem zero_rate_raises:
  "calculate_max_affordable price d 0 a = Inl ZeroDivisionError"
  by (simp add: calculate_max_affordable_def Let_def py_pow_def py_truediv_def)

subsection \<open>A down payment of the whole price or more\<close>

theorem full_down_payment_counterexample:
  "\<not> isl (calculate_max_affordable 100000 2 (45 / 1000) 25) \<and>
   projr (calculate_max_affordable 100000 2 (45 / 1000) 25) < 0 \<and>
   calculate_max_affordable 100000 1 0 25 = Inl ZeroDivisionError"
proof -
  obtain K where K: "0 < K"
    and eq: "\<And>price d. calculate_max_affordable price d (45 / 1000) 25 = Inr ((price - price * d) * K)"
    using calc_linear [of "45 / 1000" 25] by auto
  have e: "calculate_max_affordable 100000 2 (45 / 1000) 25 = Inr ((100000 - 100000 * 2) * K)"
    by (rule eq)
  show ?thesis unfolding e using K by (simp add: calc_zero_rate)
qed

text \<open>
  Claim C5, as the code has it. The calculator does not clamp the loan. For a rate > 0
  and an amortization > 0: with a down-payment fraction of exactly 1 the loan is 0 and
  the result is 0, for every price; with a fraction above 1 and a price > 0 the loan is
  negative and the result is a negative income.
\<close>

theorem full_down_payment:
  assumes "0 < r" "0 < a"
  shows "calculate_max_affordable price 1 r a = Inr 0 \<and>
     (0 < price \<and> 1 < d \<longrightarrow>
        (\<exists>v. calculate_max_affordable price d r a = Inr v \<and> v < 0))"
proof -
  obtain K where K: "0 < K"
    and eq: "\<And>price d. calculate_max_affordable price d r a = Inr ((price - price * d) * K)"
    using calc_linear [OF assms] by blast
  have "(price - price * d) * K < 0" if "0 < price" "1 < d"
  proof -
    have "price * 1 < price * d" using that by (intro mult_strict_left_mono)
    then show ?thesis using K by (simp add: mult_less_0_iff)
  qed
  then show ?thesis by (simp add: eq)
qed

theorem full_down_payment_witness:
  "calculate_max_affordable 100000 1 (45 / 1000) 25 = Inr 0 \<and>
   (\<exists>v. calculate_max_affordable 100000 2 (45 / 1000) 25 = Inr v \<and> v < 0)"
  using full_down_payment [of "45 / 1000" 25 100000 2] by simp

subsection \<open>The scenario of an 800000 home\<close>

text \<open>Bounds of \<open>1.00375 ^ 300\<close>, by powers of powers: \<open>300 = 4 * 3 * 5 * 5\<close>.\<close>

lemma pw4:
  "(1.0150845861::real) \<le> (803 / 800) ^ 4" "(803 / 800) ^ 4 \<le> (1.0150845862::real)"
  by (simp_all add: power_divide)

lemma pw12:
  "(1.0459398249::real) \<le> (803 / 800) ^ 12" "(803 / 800) ^ 12 \<le> (1.0459398253::real)"
proof -
  have e: "(803 / 800 :: real) ^ 12 = ((803 / 800) ^ 4) ^ 3"
    by (simp only: power_mult [symmetric]) simp
  have "(1.0459398249::real) \<le> 1.0150845861 ^ 3" by (simp add: power_divide)
  also have "\<dots> \<le> ((803 / 800) ^ 4) ^ 3" by (rule power_mono [OF pw4(1)]) simp
  finally show "(1.0459398249::real) \<le> (803 / 800) ^ 12" by (simp only: e)
  have "((803 / 800 :: real) ^ 4) ^ 3 \<le> 1.0150845862 ^ 3" by (rule power_mono [OF pw4(2)]) simp
  also have "\<dots> \<le> (1.0459398253::real)" by (simp add: power_divide)
  finally show "(803 / 800) ^ 12 \<le> (1.0459398253::real)" by (simp only: e)
qed

lemma pw60:
  "(1.2517958196::real) \<le> (803 / 800) ^ 60" "(803 / 800) ^ 60 \<le> (1.2517958221::real)"
proof -
  have e: "(803 / 800 :: real) ^ 60 = ((803 / 800) ^ 12) ^ 5"
    by (simp only: power_mult [symmetric]) simp
  have "(1.2517958196::real) \<le> 1.0459398249 ^ 5" by (simp add: power_divide)
  also have "\<dots> \<le> ((803 / 800) ^ 12) ^ 5" by (rule power_mono [OF pw12(1)]) simp
  finally show "(1.2517958196::real) \<le> (803 / 800) ^ 60" by (simp only: e)
  have "((803 / 800 :: real) ^ 12) ^ 5 \<le> 1.0459398253 ^ 5" by (rule power_mono [OF pw12(2)]) simp
  also have "\<dots> \<le> (1.2517958221::real)" by (simp add: power_divide)
  finally show "(803 / 800) ^ 60 \<le> (1.2517958221::real)" by (simp only: e)
qed

lemma pw300:
  "(3.0737425166::real) \<le> (803 / 800) ^ 300" "(803 / 800) ^ 300 \<le> (3.0737425474::real)"
proof -
  have e: "(803 / 800 :: real) ^ 300 = ((803 / 800) ^ 60) ^ 5"
    by (simp only: power_mult [symmetric]) simp
  have "(3.0737425166::real) \<le> 1.2517958196 ^ 5" by (simp add: power_divide)
  also have "\<dots> \<le> ((803 / 800) ^ 60) ^ 5" by (rule power_mono [OF pw60(1)]) simp
  finally show "(3.0737425166::real) \<le> (803 / 800) ^ 300" by (simp only: e)
  have "((803 / 800 :: real) ^ 60) ^ 5 \<le> 1.2517958221 ^ 5" by (rule power_mono [OF pw60(2)]) simp
  also have "\<dots> \<le> (3.0737425474::real)" by (simp add: power_divide)
  finally show "(803 / 800) ^ 300 \<le> (3.0737425474::real)" by (simp only: e)
qed

lemma payment_bounds:
  fixes P :: real
  assumes "3.0737425166 \<le> P" "P \<le> 3.0737425474"
  shows "181042 < 760000 * (0.00375 * P) / (P - 1) * 12 / 0.28"
    and "760000 * (0.00375 * P) / (P - 1) * 12 / 0.28 < 181043"
  using assms by (simp_all add: field_simps)

lemma scenario_eq:
  "calculate_max_affordable 800000 (5 / 100) (45 / 1000) 25 =
     Inr (760000 * (0.00375 * 1.00375 ^ 300) / (1.00375 ^ 300 - 1) * 12 / 0.28)"
  using calc_pos_rate [of "45 / 1000" 25 800000 "5 / 100"] by simp

lemma scenario_bounds:
  "(181042::real) < 760000 * (0.00375 * 1.00375 ^ 300) / (1.00375 ^ 300 - 1) * 12 / 0.28"
  "760000 * (0.00375 * 1.00375 ^ 300) / (1.00375 ^ 300 - 1) * 12 / 0.28 < (181043::real)"
proof -
  have e: "(1.00375::real) = 803 / 800" by simp
  show "(181042::real) < 760000 * (0.00375 * 1.00375 ^ 300) / (1.00375 ^ 300 - 1) * 12 / 0.28"
    unfolding e by (rule payment_bounds(1) [OF pw300])
  show "760000 * (0.00375 * 1.00375 ^ 300) / (1.00375 ^ 300 - 1) * 12 / 0.28 < (181043::real)"
    unfolding e by (rule payment_bounds(2) [OF pw300])
qed

theorem scenario_800000_counterexample:
  "\<not> isl (calculate_max_affordable 800000 (5 / 100) (45 / 1000) 25) \<and>
   172000 * (1 + 0.005) < projr (calculate_max_affordable 800000 (5 / 100) (45 / 1000) 25)"
proof -
  have "172000 * (1 + 0.005) < (181042::real)" by simp
  also note scenario_bounds(1)
  finally show ?thesis by (simp only: scenario_eq sum.disc sum.sel) simp
qed

text \<open>
  Claim C6, as the code has it. For price = 800000, down-payment fraction 0.05, annual
  rate 0.045 and 25 years, the calculator works with loan = 760000, monthly rate 0.00375
  and 300 payments, and returns a minimum annual income between 181042 and 181043. That
  is above 172000 by more than 0.5 percent.
\<close>

theorem scenario_800000:
  "calculate_max_affordable 800000 (5 / 100) (45 / 1000) 25 =
     Inr (760000 * (0.00375 * 1.00375 ^ 300) / (1.00375 ^ 300 - 1) * 12 / 0.28) \<and>
   181042 < projr (calculate_max_affordable 800000 (5 / 100) (45 / 1000) 25) \<and>
   projr (calculate_max_affordable 800000 (5 / 100) (45 / 1000) 25) < 181043"
  using scenario_bounds by (simp only: scenario_eq sum.sel)

subsection \<open>An amortization of zero years or less\<close>

theorem nonpositive_amortization_counterexample:
  "\<not> isl (calculate_max_affordable 800000 (5 / 100) (45 / 1000) (- 1))"
  using calc_neg_amortization [of "- 1" "45 / 1000" 800000 "5 / 100"] by simp

text \<open>
  Claim C7, as the code has it. The calculator checks no argument and has no
  InvalidInput error. With an amortization of 0 years the exponent is 0, the denominator
  \<open>b^0 - 1\<close> is zero and the division raises \<^verbatim>\<open>ZeroDivisionError\<close>, for every price,
  down-payment fraction and rate. With an amortization below 0 and a rate > 0 no error
  is raised: the formula is evaluated with the negative exponent and its value returned.
\<close>

theorem nonpositive_amortization:
  "calculate_max_affordable price d r 0 = Inl ZeroDivisionError \<and>
   (a < 0 \<and> 0 < r \<longrightarrow>
      calculate_max_affordable price d r a =
        Inr ((price - price * d) * (r / 12 * (1 / (1 + r / 12) ^ nat (- (a * 12))))
               / (1 / (1 + r / 12) ^ nat (- (a * 12)) - 1) * 12 / 0.28))"
  using calc_zero_amortization calc_neg_amortization by blast

theorem nonpositive_amortization_witness:
  "calculate_max_affordable 800000 (5 / 100) (45 / 1000) 0 = Inl ZeroDivisionError \<and>
   calculate_max_affordable 800000 (5 / 100) (45 / 1000) (- 1) =
     Inr ((800000 - 800000 * (5 / 100)) * (45 / 1000 / 12 * (1 / (1 + 45 / 1000 / 12) ^ nat (- (- 1 * 12))))
            / (1 / (1 + 45 / 1000 / 12) ^ nat (- (- 1 * 12)) - 1) * 12 / 0.28)"
  using nonpositive_amortization [of 800000 "5 / 100" "45 / 1000" "- 1"] by simp

subsection \<open>Monotonicity\<close>

text \<open>
  Claim C8. For a rate > 0 and an amortization > 0: with a down-payment fraction
  \<open>0 \<le> d < 1\<close> fixed, the minimum income is strictly increasing in the price over the
  prices > 0; and with a price > 0 fixed it is non-increasing in the down-payment
  fraction.
\<close>

theorem calculate_max_affordable_monotone:
  assumes "0 < r" "0 < a"
  shows "(0 \<le> d \<and> d < 1 \<and> 0 < p1 \<and> p1 < p2 \<longrightarrow>
           (\<exists>v1 v2. calculate_max_affordable p1 d r a = Inr v1 \<and>
                    calculate_max_affordable p2 d r a = Inr v2 \<and> v1 < v2)) \<and>
         (0 < price \<and> d1 \<le> d2 \<longrightarrow>
           (\<exists>v1 v2. calculate_max_affordable price d1 r a = Inr v1 \<and>
                    calculate_max_affordable price d2 r a = Inr v2 \<and> v2 \<le> v1))"
proof -
  obtain K where K: "0 < K"
    and eq: "\<And>price d. calculate_max_affordable price d r a = Inr ((price - price * d) * K)"
    using calc_linear [OF assms] by blast
  have inc: "(p1 - p1 * d) * K < (p2 - p2 * d) * K" if "d < 1" "p1 < p2"
  proof -
    have "p1 * (1 - d) < p2 * (1 - d)" using that by (intro mult_strict_right_mono) simp_all
    then have "p1 - p1 * d < p2 - p2 * d" by (simp add: algebra_simps)
    then show ?thesis using K by (intro mult_strict_right_mono)
  qed
  have dec: "(price - price * d2) * K \<le> (price - price * d1) * K" if "0 < price" "d1 \<le> d2"
  proof -
    have "price * d1 \<le> price * d2" using that by (intro mult_left_mono) simp_all
    then have "price - price * d2 \<le> price - price * d1" by simp
    then show ?thesis using K by (intro mult_right_mono) simp_all
  qed
  show ?thesis using inc dec by (simp add: eq)
qed

theorem calculate_max_affordable_monotone_witness:
  "(\<exists>v1 v2. calculate_max_affordable 800000 (5 / 100) (45 / 1000) 25 = Inr v1 \<and>
            calculate_max_affordable 900000 (5 / 100) (45 / 1000) 25 = Inr v2 \<and> v1 < v2) \<and>
   (\<exists>v1 v2. calculate_max_affordable 800000 (5 / 100) (45 / 1000) 25 = Inr v1 \<and>
            calculate_max_affordable 800000 (20 / 100) (45 / 1000) 25 = Inr v2 \<and> v2 \<le> v1)"
  using calculate_max_affordable_monotone [of "45 / 1000" 25 "5 / 100" 800000 900000 800000 "5 / 100" "20 / 100"]
  by simp

subsection \<open>The two calculators\<close>

text \<open>
  Claim C10. On every input the calculator of \<^verbatim>\<open>app2.py\<close> fails exactly when the one of
  \<^verbatim>\<open>app.py\<close> fails, and otherwise returns the pair of the annual income that
  \<^verbatim>\<open>app.py\<close> returns and the down payment \<open>price * down_payment_pct\<close>.
\<close>

theorem calculate_max_affordable_app2_refines:
  "calculate_max_affordable_app2 price down_payment_pct mortgage_rate amortization =
     map_sum id (\<lambda>annual_income_needed. (annual_income_needed, price * down_payment_pct))
       (calculate_max_affordable price down_payment_pct mortgage_rate amortization)"
  by (rule calc_app2)

section \<open>Facts about the regional comparison\<close>

lemma loop_regions:
  assumes "\<forall>(k, data) \<in> set tab. 0 < rate data"
  shows "map_sum id (map Region) (comparison_loop hp tab acc) = Inr (map Region acc @ map fst tab)"
  using assms
proof (induction tab arbitrary: acc)
  case Nil
  then show ?case by simp
next
  case (Cons kd tab)
  obtain k data where kd: "kd = (k, data)" by (cases kd)
  have "0 < rate data" using Cons.prems kd by simp
  then obtain v where v: "calculate_max_affordable hp (first_time data) (rate data) 25 = Inr v"
    using calc_pos_rate [of "rate data" 25] by simp
  have "\<forall>(k, data) \<in> set tab. 0 < rate data" using Cons.prems by simp
  from Cons.IH [OF this] show ?case by (simp add: kd v Let_def)
qed

lemma loop_app2_regions:
  assumes "\<forall>(k, data) \<in> set tab. 0 < rate data"
  shows "map_sum id (map Region) (comparison_loop_app2 hp tab acc) = Inr (map Region acc @ map fst tab)"
  using assms
proof (induction tab arbitrary: acc)
  case Nil
  then show ?case by simp
next
  case (Cons kd tab)
  obtain k data where kd: "kd = (k, data)" by (cases kd)
  have "0 < rate data" using Cons.prems kd by simp
  then obtain v where v: "calculate_max_affordable hp (first_time data) (rate data) 25 = Inr v"
    using calc_pos_rate [of "rate data" 25] by simp
  have "\<forall>(k, data) \<in> set tab. 0 < rate data" using Cons.prems by simp
  from Cons.IH [OF this] show ?case by (simp add: kd v calc_app2 Let_def)
qed

lemma REGIONS_rates: "\<forall>(k, data) \<in> set REGIONS. 0 < rate data"
  by (simp add: REGIONS_def)

lemma REGIONS_app2_rates: "\<forall>(k, data) \<in> set REGIONS_app2. 0 < rate data"
  by (simp add: REGIONS_app2_def)

lemma REGIONS_distinct: "distinct (map fst REGIONS)"
  by (simp add: REGIONS_def)

lemma REGIONS_app2_distinct: "distinct (map fst REGIONS_app2)"
  by (simp add: REGIONS_app2_def flag_def regional_indicator_def)

text \<open>
  Claim C9. For every purchase price, the comparison of each script produces its list
  of rows (no region's computation fails, every rate of the tables being > 0), and the
  regions of the rows are the keys of the script's table, in the table's order: one row
  per configured region, none missing, none twice.
\<close>

theorem comparison_one_row_per_region:
  "map_sum id (map Region) (comparison_data home_price) = Inr (map fst REGIONS) \<and>
   distinct (map fst REGIONS) \<and>
   map_sum id (map Region) (comparison home_price) = Inr (map fst REGIONS_app2) \<and>
   distinct (map fst REGIONS_app2)"
  using loop_regions [OF REGIONS_rates, of home_price "[]"]
    loop_app2_regions [OF REGIONS_app2_rates, of home_price "[]"]
  by (simp add: comparison_data_def comparison_def REGIONS_distinct REGIONS_app2_distinct)

section \<open>Facts about the cumulative function\<close>

lemma exp_ge_power:
  fixes x :: real
  assumes "0 \<le> 1 + x / real n" "0 < n"
  shows "(1 + x / real n) ^ n \<le> exp x"
proof -
  have "(1 + x / real n) ^ n \<le> exp (x / real n) ^ n"
    by (rule power_mono [OF exp_ge_add_one_self assms(1)])
  also have "\<dots> = exp (real n * (x / real n))"
    by (simp only: exp_of_nat_mult)
  also have "\<dots> = exp x" using assms(2) by simp
  finally show ?thesis .
qed

lemma sqrt_2_pi_bounds: "0.707 < sqrt (2 / pi)" "sqrt (2 / pi) \<le> 1"
proof -
  have "(0.707::real)\<^sup>2 < 2 / pi"
    using pi_less_4 pi_gt_zero by (simp add: field_simps power2_eq_square)
  then show "0.707 < sqrt (2 / pi)" by (rule real_less_rsqrt)
  have "2 / pi \<le> 1\<^sup>2" using pi_ge_two by simp
  then show "sqrt (2 / pi) \<le> 1" by (intro real_le_lsqrt) simp_all
qed

lemma exp2_lower: "(7.16::real) \<le> exp 2"
proof -
  have "(7.16::real) \<le> (1 + 2 / real 64) ^ 64" by (simp add: power_divide)
  also have "\<dots> \<le> exp 2" by (rule exp_ge_power) simp_all
  finally show ?thesis .
qed

lemma exp_m1_lower: "(0.356::real) \<le> exp (- 1)"
proof -
  have "(0.356::real) \<le> (1 + (- 1) / real 16) ^ 16" by (simp add: power_divide)
  also have "\<dots> \<le> exp (- 1)" by (rule exp_ge_power) simp_all
  finally show ?thesis .
qed

lemma exp_m8_upper: "exp (- 8) \<le> (0.004::real)"
proof -
  have "(256::real) = (1 + 8 / real 8) ^ 8" by simp
  also have "\<dots> \<le> exp 8" by (rule exp_ge_power) simp_all
  finally have le: "(256::real) \<le> exp 8" .
  have "exp (- 8) = 1 / exp (8::real)" by (simp add: exp_minus inverse_eq_divide)
  also have "\<dots> \<le> 1 / 256" using le by (intro divide_left_mono) simp_all
  also have "\<dots> \<le> (0.004::real)" by simp
  finally show ?thesis .
qed

lemma exp_m2_upper: "exp (- 2) \<le> (0.14::real)"
proof -
  have "exp (- 2) = 1 / exp (2::real)" by (simp add: exp_minus inverse_eq_divide)
  also have "\<dots> \<le> 1 / 7.16" using exp2_lower by (intro divide_left_mono) simp_all
  also have "\<dots> \<le> (0.14::real)" by simp
  finally show ?thesis .
qed

lemma tanh_1_lower: "(0.754::real) < tanh 1"
proof -
  have "(0.754::real) * (1 + exp (- 2)) < 1 - exp (- 2)"
    using exp_m2_upper by simp
  then have "(0.754::real) < (1 - exp (- 2)) / (1 + exp (- 2))"
    by (simp add: pos_less_divide_eq add_pos_pos)
  then show ?thesis by (simp add: tanh_real_altdef)
qed

text \<open>The function at the income whose standardised logarithm is \<open>z\<close>.\<close>

lemma cdf_z:
  "lognorm_cdf (exp (mu + sigma * z)) sigma scale =
     0.5 * (1 + tanh (sqrt 2 * z / 2) + sqrt (2 / pi) * exp (- (z ^ 2) / 2))"
  by (simp add: lognorm_cdf_def scale_def sigma_def)

lemma cdf_above_one: "1.0025 < lognorm_cdf (exp (mu + sigma * sqrt 2)) sigma scale"
proof -
  have "0.707 * 0.356 \<le> sqrt (2 / pi) * exp (- 1)"
    using sqrt_2_pi_bounds(1) exp_m1_lower by (intro mult_mono) simp_all
  then have "1.0025 < 0.5 * (1 + tanh 1 + sqrt (2 / pi) * exp (- 1))"
    using tanh_1_lower by simp
  then show ?thesis by (simp add: cdf_z)
qed

lemma cdf_far_right: "lognorm_cdf (exp (mu + sigma * 4)) sigma scale < 1.002"
proof -
  have "sqrt (2 / pi) * exp (- 8) \<le> 1 * 0.004"
    using sqrt_2_pi_bounds(2) exp_m8_upper by (intro mult_mono) simp_all
  moreover have "tanh (sqrt 2 * 4 / 2) < (1::real)" by (rule tanh_real_lt_1)
  ultimately have "0.5 * (1 + tanh (sqrt 2 * 4 / 2) + sqrt (2 / pi) * exp (- 8)) < 1.002"
    by simp
  then show ?thesis by (simp add: cdf_z)
qed

text \<open>
  Claim C1, evaluated on the code. At \<open>x = scale\<close> the standardised logarithm is 0, the
  hyperbolic tangent is 0 and the exponential is 1, so the function returns
  \<open>0.5 * (1 + sqrt (2 / pi))\<close>, about 0.899: more than 0.85, where the claim expects 0.5
  within 0.001.
\<close>

theorem lognorm_cdf_at_scale:
  "lognorm_cdf scale sigma scale = 0.5 * (1 + sqrt (2 / pi)) \<and>
   0.85 < lognorm_cdf scale sigma scale"
proof -
  have "lognorm_cdf scale sigma scale = 0.5 * (1 + sqrt (2 / pi))"
    by (simp add: lognorm_cdf_def)
  then show ?thesis using sqrt_2_pi_bounds(1) by simp
qed

text \<open>
  Claim C2, evaluated on the code. Between the incomes \<open>x1 = exp (mu + sigma * sqrt 2)\<close>
  (about 132000) and \<open>x2 = exp (mu + sigma * 4)\<close> (about 1545000) the function
  decreases, from a value above 1 to a smaller one; accordingly the share of the
  population able to afford is negative at \<open>x1\<close> and larger at the higher required
  income \<open>x2\<close>.
\<close>

theorem lognorm_cdf_decreases:
  "0 < exp (mu + sigma * sqrt 2) \<and>
   exp (mu + sigma * sqrt 2) < exp (mu + sigma * 4) \<and>
   lognorm_cdf (exp (mu + sigma * 4)) sigma scale < lognorm_cdf (exp (mu + sigma * sqrt 2)) sigma scale \<and>
   prob_affordable (exp (mu + sigma * sqrt 2)) < prob_affordable (exp (mu + sigma * 4)) \<and>
   prob_affordable (exp (mu + sigma * sqrt 2)) < 0"
proof -
  have "sqrt 2 < (4::real)" by (rule real_less_lsqrt) simp_all
  then have "exp (mu + sigma * sqrt 2) < exp (mu + sigma * 4)" by (simp add: sigma_def)
  then show ?thesis
    using cdf_above_one cdf_far_right by (simp add: prob_affordable_def)
qed

end
